theory Spec2Isabelle
  imports Main
begin

section \<open>Python values, exceptions and responses\<close>

text \<open>
  What \<open>request.get_json()\<close> hands to a view function is a Python object built from
  JSON: \<open>None\<close>, a bool, a number, a str, a list or a dict. The attributes of a
  mapped object that has not been stored are values of the same kind. Numbers are
  integers here (no view function of the application computes with a float). A dict is
  the list of its items.
\<close>

datatype json =
    JNull
  | JBool bool
  | JNum int
  | JStr string
  | JArr "json list"
  | JObj "(string \<times> json) list"

text \<open>Python truthiness, as tested by \<open>not auth\<close> and \<open>not auth.get('email')\<close>.\<close>

fun truthy :: "json \<Rightarrow> bool" where
  "truthy JNull = False"
| "truthy (JBool b) = b"
| "truthy (JNum n) = (n \<noteq> 0)"
| "truthy (JStr s) = (s \<noteq> [])"
| "truthy (JArr xs) = (xs \<noteq> [])"
| "truthy (JObj kv) = (kv \<noteq> [])"

text \<open>
  A werkzeug \<open>HTTPException\<close> carries \<open>code\<close>, \<open>name\<close> and \<open>description\<close>; the other
  exceptions are the ones the view functions and the libraries under them raise.
  None of them has the attributes \<open>get_response\<close>, \<open>name\<close> or \<open>description\<close>.
\<close>

record http_error =
  code :: nat
  name :: string
  description :: string

datatype exn =
    HTTPException http_error
  | ValidationError json
  | NoResultFound
  | MultipleResultsFound
  | InvalidRequestError
  | IntegrityError
  | DBAPIError
  | AttributeError
  | OverflowError

type_synonym 'a result = "exn + 'a"

text \<open>\<open>isinstance(e, exc.SQLAlchemyError)\<close>, as tested by \<open>except exc.SQLAlchemyError\<close>.\<close>

fun is_SQLAlchemyError :: "exn \<Rightarrow> bool" where
  "is_SQLAlchemyError NoResultFound = True"
| "is_SQLAlchemyError MultipleResultsFound = True"
| "is_SQLAlchemyError InvalidRequestError = True"
| "is_SQLAlchemyError IntegrityError = True"
| "is_SQLAlchemyError DBAPIError = True"
| "is_SQLAlchemyError _ = False"

text \<open>
  \<open>d.get(key)\<close>: the value of a dict, \<open>None\<close> for a key it does not have; any other
  object built from JSON has no attribute \<open>get\<close>.
\<close>

fun py_get :: "json \<Rightarrow> string \<Rightarrow> json result" where
  "py_get (JObj kv) k = Inr (case map_of kv k of None \<Rightarrow> JNull | Some v \<Rightarrow> v)"
| "py_get _ k = Inl AttributeError"

text \<open>
  A response is its status and its body; the body is JSON (content type
  \<open>application/json\<close>) or the page werkzeug renders for an HTTP error, given by
  the error's name and description.
\<close>

datatype body = JSON json | ErrorPage string string

record response =
  status :: nat
  data :: body

definition make_response :: "json \<Rightarrow> nat \<Rightarrow> response" where
  "make_response msg st = \<lparr>status = st, data = JSON msg\<rparr>"

definition message :: "string \<Rightarrow> json" where
  "message m = JObj [(''message'', JStr m)]"

text \<open>\<open>abort(404, description=...)\<close> raises werkzeug's \<open>NotFound\<close>.\<close>

definition abort_404 :: "string \<Rightarrow> exn" where
  "abort_404 d = HTTPException \<lparr>code = 404, name = ''Not Found'', description = d\<rparr>"

text \<open>Decimal digits of a natural number and of an integer, for \<open>str(e)\<close>, the
  f-strings and the database's text form of a number.\<close>

fun dec :: "nat \<Rightarrow> string" where
  "dec n = (if n < 10 then [char_of (48 + n)] else dec (n div 10) @ [char_of (48 + n mod 10)])"

declare dec.simps [simp del]

function dec_int :: "int \<Rightarrow> string" where
  "dec_int n = (if n < 10 then [char_of (48 + n)] else dec_int (n div 10) @ [char_of (48 + n mod 10)])"
  by pat_completeness auto
termination
  by (relation "measure nat") auto

declare dec_int.simps [simp del]

definition str_int :: "int \<Rightarrow> string" where
  "str_int n = (if n < 0 then ''-'' @ dec_int (- n) else dec_int n)"

text \<open>The incoming request: the Authorization header and the outcome of
  \<open>request.get_json()\<close>, which is the parsed body or the HTTP error the framework
  raises in its place.\<close>

record request =
  authorization :: "string option"
  get_json :: "json result"

section \<open>The mapped classes of models.py\<close>

datatype coltype = Integer | Text | String

record column =
  col_name :: string
  col_type :: coltype
  primary_key :: bool
  nullable :: bool
  unique :: bool

record model =
  tablename :: string
  columns :: "column list"

text \<open>\<open>mapped_column(t, primary_key=True)\<close>, \<open>mapped_column(t, nullable=...)\<close> and
  \<open>mapped_column(t, unique=True, nullable=False)\<close>. \<open>Event.NOC\<close> is
  \<open>mapped_column(ForeignKey("region.NOC"))\<close>: it takes the type of the column it
  references, and with no \<open>nullable\<close> argument and an annotation that is not
  \<open>Optional\<close> it is NOT NULL.\<close>

definition pk_column :: "string \<Rightarrow> coltype \<Rightarrow> column" where
  "pk_column n t = \<lparr>col_name = n, col_type = t, primary_key = True, nullable = False, unique = False\<rparr>"

definition mapped_column :: "string \<Rightarrow> coltype \<Rightarrow> bool \<Rightarrow> column" where
  "mapped_column n t nl = \<lparr>col_name = n, col_type = t, primary_key = False, nullable = nl, unique = False\<rparr>"

definition unique_column :: "string \<Rightarrow> coltype \<Rightarrow> column" where
  "unique_column n t = \<lparr>col_name = n, col_type = t, primary_key = False, nullable = False, unique = True\<rparr>"

definition Region :: model where
  "Region = \<lparr>tablename = ''region'', columns =
     [pk_column ''NOC'' Text,
      mapped_column ''region'' Text False,
      mapped_column ''notes'' Text True]\<rparr>"

definition Event :: model where
  "Event = \<lparr>tablename = ''event'', columns =
     [pk_column ''id'' Integer,
      mapped_column ''type'' Text False,
      mapped_column ''year'' Integer False,
      mapped_column ''country'' Text False,
      mapped_column ''host'' Text False,
      mapped_column ''NOC'' Text False,
      mapped_column ''start'' Text True,
      mapped_column ''end'' Text True,
      mapped_column ''duration'' Integer True,
      mapped_column ''disabilities_included'' Text True,
      mapped_column ''countries'' Integer True,
      mapped_column ''events'' Integer True,
      mapped_column ''sports'' Integer True,
      mapped_column ''participants_m'' Integer True,
      mapped_column ''participants_f'' Integer True,
      mapped_column ''participants'' Integer True,
      mapped_column ''highlights'' String True]\<rparr>"

definition User :: model where
  "User = \<lparr>tablename = ''user'', columns =
     [pk_column ''id'' Integer,
      unique_column ''email'' String,
      unique_column ''password_hash'' String]\<rparr>"

definition column_names :: "model \<Rightarrow> string list" where
  "column_names m = map col_name (columns m)"

definition primary_key_names :: "model \<Rightarrow> string list" where
  "primary_key_names m = map col_name (filter primary_key (columns m))"

section \<open>Stored values\<close>

text \<open>
  What the database stores in a column: NULL, a 64-bit integer or a text. (Real numbers
  and blobs are left out, as floats are left out of the Python values.) A stored row gives
  its columns by name. A mapped object that has not been stored (a new \<open>User(...)\<close>,
  what a schema's \<open>load\<close> returns) gives its attributes by name, as Python values; an
  attribute that was never set is \<open>None\<close>.
\<close>

datatype sqlval = SNull | SInt int | SText string

type_synonym row = "(string \<times> sqlval) list"

type_synonym obj = "(string \<times> json) list"

definition attr :: "row \<Rightarrow> string \<Rightarrow> sqlval" where
  "attr r k = (case map_of r k of None \<Rightarrow> SNull | Some v \<Rightarrow> v)"

definition set_col :: "row \<Rightarrow> string \<Rightarrow> sqlval \<Rightarrow> row" where
  "set_col r k v = map (\<lambda>kv. if fst kv = k then (k, v) else kv) r"

definition getattr :: "obj \<Rightarrow> string \<Rightarrow> json" where
  "getattr ob k = (case map_of ob k of None \<Rightarrow> JNull | Some v \<Rightarrow> v)"

definition set_attr :: "obj \<Rightarrow> string \<Rightarrow> json \<Rightarrow> obj" where
  "set_attr ob k v = (k, v) # filter (\<lambda>kv. fst kv \<noteq> k) ob"

text \<open>The Python value of a stored one, and the object loaded from a row.\<close>

fun py_value :: "sqlval \<Rightarrow> json" where
  "py_value SNull = JNull"
| "py_value (SInt n) = JNum n"
| "py_value (SText s) = JStr s"

definition py_object :: "row \<Rightarrow> obj" where
  "py_object r = map (\<lambda>kv. (fst kv, py_value (snd kv))) r"

text \<open>\<open>str(v)\<close> of a loaded attribute, as an f-string prints it.\<close>

fun py_str :: "sqlval \<Rightarrow> string" where
  "py_str SNull = ''None''"
| "py_str (SInt n) = str_int n"
| "py_str (SText s) = s"

record db =
  region_table :: "row list"
  event_table :: "row list"
  user_table :: "row list"

text \<open>
  Binding a Python value as a statement parameter (the driver, sqlite3): \<open>None\<close> is
  NULL, a bool is the integer 1 or 0, an int must fit 64 bits (\<open>OverflowError\<close>
  otherwise, which SQLAlchemy does not wrap), a str is a text; a list or a dict is
  refused (\<open>DBAPIError\<close>).
\<close>

fun bind_param :: "json \<Rightarrow> sqlval result" where
  "bind_param JNull = Inr SNull"
| "bind_param (JBool b) = Inr (SInt (if b then 1 else 0))"
| "bind_param (JNum n) =
     (if - (2 ^ 63) \<le> n \<and> n < 2 ^ 63 then Inr (SInt n) else Inl OverflowError)"
| "bind_param (JStr s) = Inr (SText s)"
| "bind_param (JArr xs) = Inl DBAPIError"
| "bind_param (JObj kv) = Inl DBAPIError"

text \<open>
  A text that the engine reads as an integer: blanks around it, an optional sign, one or
  more digits, within 64 bits. (A text that reads as a real number, or as an integer
  beyond 64 bits, becomes a real number in the engine; real numbers are not among the
  values here, so such a text is not converted.)
\<close>

definition is_space :: "char \<Rightarrow> bool" where
  "is_space c = (of_char c \<in> {9, 10, 11, 12, 13, 32 :: int})"

definition is_digit :: "char \<Rightarrow> bool" where
  "is_digit c = (48 \<le> (of_char c :: int) \<and> (of_char c :: int) \<le> 57)"

definition digits_value :: "string \<Rightarrow> int" where
  "digits_value ds = fold (\<lambda>c n. 10 * n + (of_char c - 48)) ds 0"

definition unsigned_literal :: "string \<Rightarrow> int option" where
  "unsigned_literal ds = (if ds \<noteq> [] \<and> list_all is_digit ds then Some (digits_value ds) else None)"

definition integer_literal :: "string \<Rightarrow> int option" where
  "integer_literal s =
     (let t = rev (dropWhile is_space (rev (dropWhile is_space s)));
          v = (case t of
                 [] \<Rightarrow> None
               | c # ds \<Rightarrow>
                   if c = CHR ''-'' then map_option uminus (unsigned_literal ds)
                   else if c = CHR ''+'' then unsigned_literal ds
                   else unsigned_literal t)
      in case v of
           None \<Rightarrow> None
         | Some n \<Rightarrow> if - (2 ^ 63) \<le> n \<and> n < 2 ^ 63 then Some n else None)"

text \<open>
  The affinity of a column, applied to a value stored in it and to a parameter compared
  with it: a column of text (\<open>db.Text\<close>, \<open>db.String\<close>) turns an integer into its decimal
  text; an integer column turns a text that reads as an integer into that integer.
\<close>

fun text_affinity :: "sqlval \<Rightarrow> sqlval" where
  "text_affinity (SInt n) = SText (str_int n)"
| "text_affinity (SText s) = SText s"
| "text_affinity SNull = SNull"

fun integer_affinity :: "sqlval \<Rightarrow> sqlval" where
  "integer_affinity (SText s) = (case integer_literal s of None \<Rightarrow> SText s | Some n \<Rightarrow> SInt n)"
| "integer_affinity (SInt n) = SInt n"
| "integer_affinity SNull = SNull"

fun affinity :: "coltype \<Rightarrow> sqlval \<Rightarrow> sqlval" where
  "affinity Integer v = integer_affinity v"
| "affinity Text v = text_affinity v"
| "affinity String v = text_affinity v"

section \<open>Queries and commits\<close>

text \<open>
  \<open>db.select(M).filter_by(k=v)\<close> refuses a keyword that is not an attribute of the
  mapped class (\<open>InvalidRequestError\<close>, raised while the statement is built). When the
  statement runs, the value is bound and compared under the column's affinity with
  the stored values; \<open>None\<close> is compared with \<open>IS NULL\<close>.
\<close>

definition filter_by :: "model \<Rightarrow> string \<Rightarrow> json \<Rightarrow> row list \<Rightarrow> (row list) result" where
  "filter_by m k v t =
     (case find (\<lambda>c. col_name c = k) (columns m) of
        None \<Rightarrow> Inl InvalidRequestError
      | Some c \<Rightarrow>
          (case bind_param v of
             Inl e \<Rightarrow> Inl e
           | Inr p \<Rightarrow> Inr (filter (\<lambda>r. attr r k = affinity (col_type c) p) t)))"

fun scalar_one :: "row list \<Rightarrow> row result" where
  "scalar_one [] = Inl NoResultFound"
| "scalar_one [r] = Inr r"
| "scalar_one _ = Inl MultipleResultsFound"

fun scalar_one_or_none :: "row list \<Rightarrow> (row option) result" where
  "scalar_one_or_none [] = Inr None"
| "scalar_one_or_none [r] = Inr (Some r)"
| "scalar_one_or_none _ = Inl MultipleResultsFound"

text \<open>\<open>schema.dump(obj)\<close>: the dict of the object's columns.\<close>

definition dump :: "model \<Rightarrow> row \<Rightarrow> json" where
  "dump m r = JObj (map (\<lambda>c. (col_name c, py_value (attr r (col_name c)))) (columns m))"

text \<open>
  The values of an object's columns as the statement stores them: each is bound, in the
  order of the columns, and takes the affinity of its column.
\<close>

fun bind_columns :: "column list \<Rightarrow> obj \<Rightarrow> row result" where
  "bind_columns [] ob = Inr []"
| "bind_columns (c # cs) ob =
     (case bind_param (getattr ob (col_name c)) of
        Inl e \<Rightarrow> Inl e
      | Inr v \<Rightarrow>
          (case bind_columns cs ob of
             Inl e \<Rightarrow> Inl e
           | Inr r \<Rightarrow> Inr ((col_name c, affinity (col_type c) v) # r)))"

text \<open>
  An integer primary key left unset takes the next row id: 1 in an empty table, else
  the largest id plus one; once the largest is \<open>2^63 - 1\<close> the engine draws an unused id
  at random (\<open>rnd\<close>, its draw) or gives up (no draw, a \<open>DBAPIError\<close>).
\<close>

fun sql_int :: "sqlval \<Rightarrow> int option" where
  "sql_int (SInt n) = Some n"
| "sql_int _ = None"

definition next_rowid :: "int option \<Rightarrow> string \<Rightarrow> row list \<Rightarrow> int result" where
  "next_rowid rnd k t =
     (case List.map_filter (\<lambda>r. sql_int (attr r k)) t of
        [] \<Rightarrow> Inr 1
      | n # ns \<Rightarrow>
          if fold max ns n < 2 ^ 63 - 1 then Inr (fold max ns n + 1)
          else (case rnd of None \<Rightarrow> Inl DBAPIError | Some i \<Rightarrow> Inr i))"

fun autoincrement :: "int option \<Rightarrow> column list \<Rightarrow> row list \<Rightarrow> row \<Rightarrow> row result" where
  "autoincrement rnd [] t r = Inr r"
| "autoincrement rnd (c # cs) t r =
     (if primary_key c \<and> col_type c = Integer \<and> attr r (col_name c) = SNull
      then (case next_rowid rnd (col_name c) t of
              Inl e \<Rightarrow> Inl e
            | Inr i \<Rightarrow> autoincrement rnd cs t (set_col r (col_name c) (SInt i)))
      else autoincrement rnd cs t r)"

text \<open>
  The constraints of the table: an integer primary key holds an integer (the engine's
  \<open>datatype mismatch\<close>); a column declared \<open>nullable=False\<close> (or a primary key) is not
  NULL; a column declared \<open>unique=True\<close> (or a primary key) repeats no stored value.
  Each failure is an \<open>IntegrityError\<close>.
\<close>

definition datatype_mismatch :: "model \<Rightarrow> row \<Rightarrow> bool" where
  "datatype_mismatch m r =
     list_ex (\<lambda>c. primary_key c \<and> col_type c = Integer \<and> sql_int (attr r (col_name c)) = None)
             (columns m)"

definition violates_not_null :: "model \<Rightarrow> row \<Rightarrow> bool" where
  "violates_not_null m r =
     list_ex (\<lambda>c. \<not> nullable c \<and> attr r (col_name c) = SNull) (columns m)"

definition violates_unique :: "model \<Rightarrow> row list \<Rightarrow> row \<Rightarrow> bool" where
  "violates_unique m t r =
     list_ex (\<lambda>c. (unique c \<or> primary_key c) \<and> attr r (col_name c) \<noteq> SNull \<and>
                  list_ex (\<lambda>r'. attr r' (col_name c) = attr r (col_name c)) t)
             (columns m)"

text \<open>\<open>db.session.add(obj); db.session.commit()\<close> for a new object: the INSERT. It
  gives the stored row, which the object is reloaded from, and the table.\<close>

definition insert_row :: "int option \<Rightarrow> model \<Rightarrow> obj \<Rightarrow> row list \<Rightarrow> (row \<times> row list) result" where
  "insert_row rnd m ob t =
     (case bind_columns (columns m) ob of
        Inl e \<Rightarrow> Inl e
      | Inr r0 \<Rightarrow>
          (case autoincrement rnd (columns m) t r0 of
             Inl e \<Rightarrow> Inl e
           | Inr r \<Rightarrow>
               if datatype_mismatch m r \<or> violates_not_null m r \<or> violates_unique m t r
               then Inl IntegrityError
               else Inr (r, t @ [r])))"

text \<open>\<open>db.session.add(obj); db.session.commit()\<close> for an object loaded from the row
  \<open>old\<close>: the UPDATE replaces the row, under the same constraints.\<close>

definition update_row :: "model \<Rightarrow> row \<Rightarrow> obj \<Rightarrow> row list \<Rightarrow> (row \<times> row list) result" where
  "update_row m old ob t =
     (case bind_columns (columns m) ob of
        Inl e \<Rightarrow> Inl e
      | Inr r \<Rightarrow>
          if datatype_mismatch m r \<or> violates_not_null m r \<or>
             violates_unique m (filter (\<lambda>r'. r' \<noteq> old) t) r
          then Inl IntegrityError
          else Inr (r, map (\<lambda>r'. if r' = old then r else r') t))"

definition add_commit :: "int option \<Rightarrow> model \<Rightarrow> row option \<Rightarrow> obj \<Rightarrow> row list \<Rightarrow> (row \<times> row list) result" where
  "add_commit rnd m existing ob t =
     (case existing of
        Some old \<Rightarrow> update_row m old ob t
      | None \<Rightarrow> insert_row rnd m ob t)"

section \<open>The read routes of routes.py\<close>

text \<open>
  \<open>get_regions()\<close> and \<open>get_events()\<close> dump every row. \<open>get_region(code)\<close> catches \<open>NoResultFound\<close> and aborts with 404; any other exception
  of the query leaves the function.
\<close>

definition get_regions :: "db \<Rightarrow> response result" where
  "get_regions d = Inr \<lparr>status = 200, data = JSON (JArr (map (dump Region) (region_table d)))\<rparr>"

definition get_events :: "db \<Rightarrow> response result" where
  "get_events d = Inr \<lparr>status = 200, data = JSON (JArr (map (dump Event) (event_table d)))\<rparr>"

definition get_region :: "string \<Rightarrow> db \<Rightarrow> response result" where
  "get_region code_arg d =
     (case filter_by Region ''NOC'' (JStr code_arg) (region_table d) of
        Inl e \<Rightarrow> Inl e
      | Inr rows \<Rightarrow>
          (case scalar_one rows of
             Inl NoResultFound \<Rightarrow> Inl (abort_404 ''Region not found'')
           | Inl e \<Rightarrow> Inl e
           | Inr region \<Rightarrow> Inr \<lparr>status = 200, data = JSON (dump Region region)\<rparr>))"

text \<open>
  \<open>get_event(event_id)\<close> has no \<open>try\<close>: what \<open>scalar_one()\<close> raises leaves the function.
  The path segment, a str, is compared by the database with the integer column \<open>id\<close>;
  the segment is given here by the integer it is the decimal text of.
\<close>

definition get_event :: "int \<Rightarrow> db \<Rightarrow> response result" where
  "get_event event_id d =
     (case filter_by Event ''id'' (JStr (str_int event_id)) (event_table d) of
        Inl e \<Rightarrow> Inl e
      | Inr rows \<Rightarrow>
          (case scalar_one rows of
             Inl e \<Rightarrow> Inl e
           | Inr event \<Rightarrow> Inr \<lparr>status = 200, data = JSON (dump Event event)\<rparr>))"

section \<open>The error handlers\<close>

text \<open>\<open>register_validation_error\<close> (error_handlers.py): the messages with status 400.\<close>

definition register_validation_error :: "json \<Rightarrow> response result" where
  "register_validation_error messages = Inr \<lparr>status = 400, data = JSON messages\<rparr>"

text \<open>\<open>str(e)\<close> of an HTTP error is \<open>"<code> <name>: <description>"\<close>.\<close>

definition str_http :: "http_error \<Rightarrow> string" where
  "str_http e = dec (code e) @ '' '' @ name e @ '': '' @ description e"

text \<open>\<open>resource_not_found\<close>, registered for 404 in both modules.\<close>

definition resource_not_found :: "http_error \<Rightarrow> response result" where
  "resource_not_found e = Inr \<lparr>status = 404, data = JSON (JObj [(''error'', JStr (str_http e))])\<rparr>"

text \<open>
  \<open>handle_exception\<close> as registered for \<open>Exception\<close> (routes.py, line 207): an HTTP
  error is returned as it is, which the framework renders as werkzeug's page for it;
  for any other exception the first statement, \<open>e.get_response()\<close>, reads an attribute
  the exception does not have.
\<close>

fun handle_exception :: "exn \<Rightarrow> response result" where
  "handle_exception (HTTPException e) = Inr \<lparr>status = code e, data = ErrorPage (name e) (description e)\<rparr>"
| "handle_exception _ = Inl AttributeError"

text \<open>
  The second \<open>handle_exception\<close>, registered for \<open>HTTPException\<close> (routes.py, line 227):
  the error's own response with the body replaced by JSON.
\<close>

definition handle_exception_http :: "http_error \<Rightarrow> response result" where
  "handle_exception_http e =
     Inr \<lparr>status = code e,
          data = JSON (JObj [(''code'', JNum (int (code e))),
                             (''name'', JStr (name e)),
                             (''description'', JStr (description e))])\<rparr>"

section \<open>How Flask calls the handlers\<close>

text \<open>
  Flask looks a handler up first by the error's code, then by its class along the method
  resolution order: 404 has its own handler, every other HTTP error reaches the handler
  registered for \<open>HTTPException\<close>, a marshmallow \<open>ValidationError\<close> its own, and every
  other exception the handler registered for \<open>Exception\<close>.
\<close>

fun handle_user_exception :: "exn \<Rightarrow> response result" where
  "handle_user_exception (HTTPException e) =
     (if code e = 404 then resource_not_found e else handle_exception_http e)"
| "handle_user_exception (ValidationError messages) = register_validation_error messages"
| "handle_user_exception e = handle_exception e"

definition InternalServerError :: http_error where
  "InternalServerError =
     \<lparr>code = 500, name = ''Internal Server Error'',
      description = ''The server encountered an internal error and was unable to complete your request. Either the server is overloaded or there is an error in the application.''\<rparr>"

text \<open>
  An exception that leaves \<open>handle_user_exception\<close> (one raised by a handler) reaches
  Flask's own \<open>handle_exception\<close>: with \<open>PROPAGATE_EXCEPTIONS\<close>, which \<open>TESTING\<close> and
  \<open>DEBUG\<close> switch on, it is raised again and leaves the application; otherwise it is
  replaced by \<open>InternalServerError\<close>, which is given to the handler registered for it.
\<close>

definition flask_handle_exception :: "bool \<Rightarrow> exn \<Rightarrow> response result" where
  "flask_handle_exception propagate e =
     (if propagate then Inl e else handle_exception_http InternalServerError)"

definition full_dispatch_request :: "response result \<Rightarrow> response result" where
  "full_dispatch_request rv = (case rv of Inl e \<Rightarrow> handle_user_exception e | Inr r \<Rightarrow> Inr r)"

definition wsgi_app :: "bool \<Rightarrow> response result \<Rightarrow> response result" where
  "wsgi_app propagate rv =
     (case full_dispatch_request rv of
        Inl e \<Rightarrow> flask_handle_exception propagate e
      | Inr r \<Rightarrow> Inr r)"

section \<open>The environment of a request\<close>

text \<open>
  A token has three parts: the user identifier, the absolute expiry time (seconds) and
  the signature over the two.
\<close>

record token =
  sub :: json
  exp :: int
  signature :: string

text \<open>
  What a request reads from outside the application: the configuration (the signing
  secret, the lifetime of a token), the clock, the randomness (the salt of a password
  hash, the engine's draw of a row id), and the library functions the application
  calls, on the arguments they are made for: \<open>kdf_hash\<close>, the hash string werkzeug
  makes of a salt and a password, and \<open>kdf_check\<close>, its verdict on a hash string and a
  password; the \<open>load\<close> of the two marshmallow schemas, which reads the table (it
  looks the primary key of the data up), takes the data, the \<open>instance\<close> argument and
  the \<open>partial\<close> flag, and gives the stored row it has updated, if any, and the
  object; the token library's keyed signature, its text form of a token and its
  parser. They are parameters: no property of them is assumed.
\<close>

record env =
  SECRET_KEY :: string
  token_lifetime :: int
  now :: int
  salt :: string
  random_rowid :: "int option"
  kdf_hash :: "string \<Rightarrow> string \<Rightarrow> string"
  kdf_check :: "string \<Rightarrow> string \<Rightarrow> bool"
  event_schema_load :: "row list \<Rightarrow> json \<Rightarrow> row option \<Rightarrow> bool \<Rightarrow> (row option \<times> obj) result"
  region_schema_load :: "row list \<Rightarrow> json \<Rightarrow> row option \<Rightarrow> bool \<Rightarrow> (row option \<times> obj) result"
  jwt_sign :: "string \<Rightarrow> json \<times> int \<Rightarrow> string"
  jwt_text :: "token \<Rightarrow> string"
  jwt_parse :: "string \<Rightarrow> token option"

section \<open>werkzeug.security as called from models.py\<close>

text \<open>
  \<open>generate_password_hash(password)\<close> draws a salt and hashes; it starts with
  \<open>password.encode()\<close>, an attribute only a str has.
\<close>

definition generate_password_hash :: "env \<Rightarrow> json \<Rightarrow> string result" where
  "generate_password_hash E password =
     (case password of
        JStr p \<Rightarrow> Inr (kdf_hash E (salt E) p)
      | _ \<Rightarrow> Inl AttributeError)"

text \<open>
  \<open>check_password_hash(pwhash, password)\<close> splits \<open>pwhash\<close> at its first two dollar signs
  (an attribute error where it is not a str) and answers \<open>False\<close> where there are fewer;
  then it hashes the password, starting with \<open>password.encode()\<close>.
\<close>

definition check_password_hash :: "env \<Rightarrow> json \<Rightarrow> json \<Rightarrow> bool result" where
  "check_password_hash E pwhash password =
     (case pwhash of
        JStr h \<Rightarrow>
          (case password of
             JStr p \<Rightarrow> Inr (kdf_check E h p)
           | _ \<Rightarrow> if count_list h (CHR ''$'') < 2 then Inr False else Inl AttributeError)
      | _ \<Rightarrow> Inl AttributeError)"

section \<open>The methods of User (models.py)\<close>

definition set_password :: "env \<Rightarrow> obj \<Rightarrow> json \<Rightarrow> obj result" where
  "set_password E user password =
     (case generate_password_hash E password of
        Inl e \<Rightarrow> Inl e
      | Inr h \<Rightarrow> Inr (set_attr user ''password_hash'' (JStr h)))"

definition check_password :: "env \<Rightarrow> obj \<Rightarrow> json \<Rightarrow> bool result" where
  "check_password E user password =
     check_password_hash E (getattr user ''password_hash'') password"

section \<open>The helpers: tokens and the guard\<close>

text \<open>Modelled from the spec: \<open>encode_auth_token\<close> of paralympics/helpers.py, which is not
  among the sources. The token embeds the user identifier and an absolute expiry, a
  fixed configured duration after issuance, and is signed with the process-wide secret.
\<close>

definition encode_auth_token :: "env \<Rightarrow> json \<Rightarrow> token" where
  "encode_auth_token E user_id =
     \<lparr>sub = user_id, exp = now E + token_lifetime E,
      signature = jwt_sign E (SECRET_KEY E) (user_id, now E + token_lifetime E)\<rparr>"

datatype token_error = InvalidTokenError | ExpiredSignatureError

text \<open>Modelled from the spec: the decoding step of the guard in paralympics/helpers.py. The
  signature is verified first; then the expiry: the token fails once the current time
  is past the embedded expiry.
\<close>

definition decode_auth_token :: "env \<Rightarrow> token \<Rightarrow> token_error + json" where
  "decode_auth_token E t =
     (if signature t \<noteq> jwt_sign E (SECRET_KEY E) (sub t, exp t) then Inl InvalidTokenError
      else if exp t < now E then Inl ExpiredSignatureError
      else Inr (sub t))"

text \<open>Modelled from the spec: the checks of \<open>token_required\<close>, in the spec's order: no token
  in the authorization header; a malformed token or an invalid signature; an expired
  token, with a message of its own. The result is the reason of the refusal or the user
  identifier of the token. The spec fixes the wording of no message.
\<close>

definition authenticate :: "env \<Rightarrow> request \<Rightarrow> string + json" where
  "authenticate E req =
     (case authorization req of
        None \<Rightarrow> Inl ''Authentication token missing''
      | Some txt \<Rightarrow>
          (case jwt_parse E txt of
             None \<Rightarrow> Inl ''Invalid token''
           | Some t \<Rightarrow>
               (case decode_auth_token E t of
                  Inl InvalidTokenError \<Rightarrow> Inl ''Invalid token''
                | Inl ExpiredSignatureError \<Rightarrow> Inl ''Token expired''
                | Inr user_id \<Rightarrow> Inr user_id)))"

text \<open>A view function: from the request and the database to what it returns or raises,
  and the database it leaves.\<close>

type_synonym view = "request \<Rightarrow> db \<Rightarrow> response result \<times> db"

text \<open>Modelled from the spec: the decorator \<open>token_required\<close> of paralympics/helpers.py. A
  refusal is answered with 401 and the wrapped function is not called. The view
  functions of routes.py take no user argument, so the identifier is not passed on.
\<close>

definition token_required :: "env \<Rightarrow> view \<Rightarrow> view" where
  "token_required E f req d =
     (case authenticate E req of
        Inl reason \<Rightarrow> (Inr (make_response (message reason) 401), d)
      | Inr user_id \<Rightarrow> f req d)"

section \<open>The write routes of routes.py\<close>

text \<open>
  No source switches the engine's enforcement of foreign keys on, so a stored
  \<open>Event.NOC\<close> need not name a region.

  \<open>add_event()\<close> and \<open>add_region()\<close>: the body, the schema's \<open>load\<close>, add and commit; the
  message prints the attribute of the object as reloaded after the commit.
\<close>

definition add_event :: "env \<Rightarrow> view" where
  "add_event E req d =
     (case get_json req of
        Inl e \<Rightarrow> (Inl e, d)
      | Inr ev_json \<Rightarrow>
     (case event_schema_load E (event_table d) ev_json None False of
        Inl e \<Rightarrow> (Inl e, d)
      | Inr (existing, event) \<Rightarrow>
     (case add_commit (random_rowid E) Event existing event (event_table d) of
        Inl e \<Rightarrow> (Inl e, d)
      | Inr (r, t') \<Rightarrow>
          (Inr \<lparr>status = 200,
                data = JSON (message (''Event added with id= '' @ py_str (attr r ''id'')))\<rparr>,
           d\<lparr>event_table := t'\<rparr>))))"

definition add_region :: "env \<Rightarrow> view" where
  "add_region E req d =
     (case get_json req of
        Inl e \<Rightarrow> (Inl e, d)
      | Inr json_data \<Rightarrow>
     (case region_schema_load E (region_table d) json_data None False of
        Inl e \<Rightarrow> (Inl e, d)
      | Inr (existing, region) \<Rightarrow>
     (case add_commit (random_rowid E) Region existing region (region_table d) of
        Inl e \<Rightarrow> (Inl e, d)
      | Inr (r, t') \<Rightarrow>
          (Inr \<lparr>status = 200,
                data = JSON (message (''Region added with NOC= '' @ py_str (attr r ''NOC'')))\<rparr>,
           d\<lparr>region_table := t'\<rparr>))))"

text \<open>\<open>delete_event(event_id)\<close>: the path converter gives an int; what \<open>scalar_one()\<close>
  raises leaves the function.\<close>

definition delete_event :: "int \<Rightarrow> view" where
  "delete_event event_id req d =
     (case filter_by Event ''id'' (JNum event_id) (event_table d) of
        Inl e \<Rightarrow> (Inl e, d)
      | Inr rows \<Rightarrow>
     (case scalar_one rows of
        Inl e \<Rightarrow> (Inl e, d)
      | Inr event \<Rightarrow>
          (Inr \<lparr>status = 200,
                data = JSON (message (''Event '' @ str_int event_id @ '' deleted.''))\<rparr>,
           d\<lparr>event_table := filter (\<lambda>r. r \<noteq> event) (event_table d)\<rparr>)))"

text \<open>
  The \<open>try\<close> block of \<open>delete_region\<close>. Deleting a region, the session first takes its
  events (the relationship \<open>events\<close>) off it by setting their \<open>NOC\<close> to NULL, which the
  NOT NULL of \<open>Event.NOC\<close> refuses; a region without events is deleted.
\<close>

definition delete_region_try :: "string \<Rightarrow> db \<Rightarrow> db result" where
  "delete_region_try noc_code d =
     (case filter_by Region ''NOC'' (JStr noc_code) (region_table d) of
        Inl e \<Rightarrow> Inl e
      | Inr rows \<Rightarrow>
     (case scalar_one rows of
        Inl e \<Rightarrow> Inl e
      | Inr region \<Rightarrow>
          if list_ex (\<lambda>ev. attr ev ''NOC'' = attr region ''NOC'') (event_table d)
          then Inl IntegrityError
          else Inr (d\<lparr>region_table := filter (\<lambda>r. r \<noteq> region) (region_table d)\<rparr>)))"

text \<open>\<open>delete_region(noc_code)\<close>: \<open>except exc.SQLAlchemyError\<close> answers 404.\<close>

definition delete_region :: "string \<Rightarrow> view" where
  "delete_region noc_code req d =
     (case delete_region_try noc_code d of
        Inr d' \<Rightarrow>
          (Inr \<lparr>status = 200, data = JSON (message (''Region '' @ noc_code @ '' deleted.''))\<rparr>, d')
      | Inl e \<Rightarrow>
          if is_SQLAlchemyError e
          then (Inr (make_response (message (''Region '' @ noc_code @ '' not found'')) 404), d)
          else (Inl e, d))"

text \<open>\<open>event_update(event_id)\<close> and \<open>region_update(noc_code)\<close>: the statements in the
  order of the source.\<close>

definition event_update :: "env \<Rightarrow> string \<Rightarrow> view" where
  "event_update E event_id req d =
     (case filter_by Event ''event_id'' (JStr event_id) (event_table d) of
        Inl e \<Rightarrow> (Inl e, d)
      | Inr rows \<Rightarrow>
     (case scalar_one_or_none rows of
        Inl e \<Rightarrow> (Inl e, d)
      | Inr existing_event \<Rightarrow>
     (case get_json req of
        Inl e \<Rightarrow> (Inl e, d)
      | Inr event_json \<Rightarrow>
     (case event_schema_load E (event_table d) event_json existing_event True of
        Inl e \<Rightarrow> (Inl e, d)
      | Inr (existing, event_upd) \<Rightarrow>
     (case add_commit (random_rowid E) Event existing event_upd (event_table d) of
        Inl e \<Rightarrow> (Inl e, d)
      | Inr (r, t') \<Rightarrow>
          (Inr \<lparr>status = 200,
                data = JSON (message (''Event with id='' @ event_id @ '' updated.''))\<rparr>,
           d\<lparr>event_table := t'\<rparr>))))))"

definition region_update :: "env \<Rightarrow> string \<Rightarrow> view" where
  "region_update E noc_code req d =
     (case filter_by Region ''NOC'' (JStr noc_code) (region_table d) of
        Inl e \<Rightarrow> (Inl e, d)
      | Inr rows \<Rightarrow>
     (case scalar_one_or_none rows of
        Inl e \<Rightarrow> (Inl e, d)
      | Inr existing_region \<Rightarrow>
     (case get_json req of
        Inl e \<Rightarrow> (Inl e, d)
      | Inr region_json \<Rightarrow>
     (case region_schema_load E (region_table d) region_json existing_region True of
        Inl e \<Rightarrow> (Inl e, d)
      | Inr (existing, region_upd) \<Rightarrow>
     (case add_commit (random_rowid E) Region existing region_upd (region_table d) of
        Inl e \<Rightarrow> (Inl e, d)
      | Inr (r, t') \<Rightarrow>
          (Inr \<lparr>status = 200,
                data = JSON (message (''Region '' @ noc_code @ '' updated.''))\<rparr>,
           d\<lparr>region_table := t'\<rparr>))))))"

text \<open>The \<open>try\<close> block of \<open>register\<close>: the new user, its hashed password, add and commit.\<close>

definition register_try :: "env \<Rightarrow> json \<Rightarrow> db \<Rightarrow> db result" where
  "register_try E post_data d =
     (case py_get post_data ''email'' of
        Inl e \<Rightarrow> Inl e
      | Inr email \<Rightarrow>
     (case py_get post_data ''password'' of
        Inl e \<Rightarrow> Inl e
      | Inr password \<Rightarrow>
     (case set_password E [(''email'', email)] password of
        Inl e \<Rightarrow> Inl e
      | Inr user \<Rightarrow>
     (case insert_row (random_rowid E) User user (user_table d) of
        Inl e \<Rightarrow> Inl e
      | Inr (u, t') \<Rightarrow> Inr (d\<lparr>user_table := t'\<rparr>)))))"

text \<open>\<open>register()\<close>: \<open>except Exception\<close> catches whatever the \<open>try\<close> block raises; what is
  raised before the block leaves the function.\<close>

definition register :: "env \<Rightarrow> view" where
  "register E req d =
     (case get_json req of
        Inl e \<Rightarrow> (Inl e, d)
      | Inr post_data \<Rightarrow>
     (case py_get post_data ''email'' of
        Inl e \<Rightarrow> (Inl e, d)
      | Inr email \<Rightarrow>
     (case filter_by User ''email'' email (user_table d) of
        Inl e \<Rightarrow> (Inl e, d)
      | Inr rows \<Rightarrow>
     (case scalar_one_or_none rows of
        Inl e \<Rightarrow> (Inl e, d)
      | Inr None \<Rightarrow>
          (case register_try E post_data d of
             Inr d' \<Rightarrow> (Inr (make_response (message ''Successfully registered.'') 201), d')
           | Inl err \<Rightarrow>
               (Inr (make_response (message ''An error occurred. Please try again.'') 500), d))
      | Inr (Some user) \<Rightarrow>
          (Inr (make_response (message ''User already exists. Please Log in.'') 409), d)))))"

text \<open>\<open>login()\<close>: it reads the database and leaves it as it is.\<close>

definition login :: "env \<Rightarrow> request \<Rightarrow> db \<Rightarrow> response result" where
  "login E req d =
     (case get_json req of
        Inl e \<Rightarrow> Inl e
      | Inr auth \<Rightarrow>
     (if \<not> truthy auth then Inr (make_response (message ''Missing email or password'') 401)
      else case py_get auth ''email'' of
        Inl e \<Rightarrow> Inl e
      | Inr email \<Rightarrow>
     (if \<not> truthy email then Inr (make_response (message ''Missing email or password'') 401)
      else case py_get auth ''password'' of
        Inl e \<Rightarrow> Inl e
      | Inr password \<Rightarrow>
     (if \<not> truthy password then Inr (make_response (message ''Missing email or password'') 401)
      else case filter_by User ''email'' email (user_table d) of
        Inl e \<Rightarrow> Inl e
      | Inr rows \<Rightarrow>
     (case scalar_one_or_none rows of
        Inl e \<Rightarrow> Inl e
      | Inr None \<Rightarrow> Inr (make_response (message ''Incorrect email or password.'') 401)
      | Inr (Some user) \<Rightarrow>
          (case check_password E (py_object user) password of
             Inl e \<Rightarrow> Inl e
           | Inr ok \<Rightarrow>
               if \<not> ok then Inr (make_response (message ''Incorrect email or password.'') 401)
               else Inr (make_response
                           (JObj [(''user_id'', py_value (attr user ''id'')),
                                  (''token'',
                                   JStr (jwt_text E (encode_auth_token E (py_value (attr user ''id'')))))])
                           201)))))))"

section \<open>The routes\<close>

datatype http_method = GET | POST | PATCH | DELETE

datatype route =
    get_regions_route
  | get_region_route string
  | get_events_route
  | get_event_route int
  | add_event_route
  | add_region_route
  | delete_event_route int
  | delete_region_route string
  | event_update_route string
  | region_update_route string
  | register_route
  | login_route

fun route_method :: "route \<Rightarrow> http_method" where
  "route_method get_regions_route = GET"
| "route_method (get_region_route c) = GET"
| "route_method get_events_route = GET"
| "route_method (get_event_route i) = GET"
| "route_method add_event_route = POST"
| "route_method add_region_route = POST"
| "route_method (delete_event_route i) = DELETE"
| "route_method (delete_region_route c) = DELETE"
| "route_method (event_update_route i) = PATCH"
| "route_method (region_update_route c) = PATCH"
| "route_method register_route = POST"
| "route_method login_route = POST"

text \<open>The functions of routes.py as written under their decorators.\<close>

fun view_body :: "env \<Rightarrow> route \<Rightarrow> view" where
  "view_body E get_regions_route = (\<lambda>req d. (get_regions d, d))"
| "view_body E (get_region_route c) = (\<lambda>req d. (get_region c d, d))"
| "view_body E get_events_route = (\<lambda>req d. (get_events d, d))"
| "view_body E (get_event_route i) = (\<lambda>req d. (get_event i d, d))"
| "view_body E add_event_route = add_event E"
| "view_body E add_region_route = add_region E"
| "view_body E (delete_event_route i) = delete_event i"
| "view_body E (delete_region_route c) = delete_region c"
| "view_body E (event_update_route i) = event_update E i"
| "view_body E (region_update_route c) = region_update E c"
| "view_body E register_route = register E"
| "view_body E login_route = (\<lambda>req d. (login E req d, d))"

text \<open>
  The view function bound to a route: the function \<open>other r\<close> under the decorators
  routes.py puts on the function of route \<open>r\<close>. The application binds \<open>view_body E\<close>.
\<close>

fun view_function :: "env \<Rightarrow> (route \<Rightarrow> view) \<Rightarrow> route \<Rightarrow> view" where
  "view_function E other get_regions_route = other get_regions_route"
| "view_function E other (get_region_route c) = other (get_region_route c)"
| "view_function E other get_events_route = other get_events_route"
| "view_function E other (get_event_route i) = other (get_event_route i)"
| "view_function E other add_event_route = token_required E (other add_event_route)"
| "view_function E other add_region_route = token_required E (other add_region_route)"
| "view_function E other (delete_event_route i) = token_required E (other (delete_event_route i))"
| "view_function E other (delete_region_route c) = token_required E (other (delete_region_route c))"
| "view_function E other (event_update_route i) = token_required E (other (event_update_route i))"
| "view_function E other (region_update_route c) = token_required E (other (region_update_route c))"
| "view_function E other register_route = token_required E (other register_route)"
| "view_function E other login_route = token_required E (other login_route)"

text \<open>A request served: the view function runs, and what it raises goes through the
  handlers; an exception that leaves the application leaves the database as the view
  function left it.\<close>

definition serve :: "bool \<Rightarrow> env \<Rightarrow> (route \<Rightarrow> view) \<Rightarrow> route \<Rightarrow> request \<Rightarrow> db \<Rightarrow> response result \<times> db" where
  "serve propagate E other r req d =
     (case view_function E other r req d of (rv, d') \<Rightarrow> (wsgi_app propagate rv, d'))"

section \<open>Invariants and sample data\<close>

text \<open>The uniqueness declared for the two columns of \<open>User\<close>, as a property of the
  stored rows.\<close>

definition password_hash_unique :: "db \<Rightarrow> bool" where
  "password_hash_unique d = distinct (map (\<lambda>r. attr r ''password_hash'') (user_table d))"

definition email_unique :: "db \<Rightarrow> bool" where
  "email_unique d = distinct (map (\<lambda>r. attr r ''email'') (user_table d))"

text \<open>
  A small database on which the routes are evaluated: the event of the test fixture
  \<open>new_event\<close>, its region, and the user of the fixture \<open>new_user\<close>. The environment
  \<open>toy_env\<close> stands in for the libraries with functions simple enough to compute by
  hand: the hash string of a password is \<open>toy\<close>, the salt and the password reversed,
  with dollar signs between; the signature is the key followed by the expiry; one token
  text is well formed; the schemas refuse every body.
\<close>

definition rome_1960 :: row where
  "rome_1960 =
     [(''id'', SInt 33), (''type'', SText ''summer''), (''year'', SInt 1960),
      (''country'', SText ''Italy''), (''host'', SText ''Rome''), (''NOC'', SText ''ITA''),
      (''start'', SText ''18/09/1960''), (''end'', SText ''25/09/1960''), (''duration'', SInt 7),
      (''disabilities_included'', SText ''Spinal injury''), (''countries'', SInt 23),
      (''events'', SInt 113), (''sports'', SInt 8), (''participants_m'', SNull),
      (''participants_f'', SNull), (''participants'', SInt 209),
      (''highlights'', SText ''First Games with a disability held in same venues as Olympic Games'')]"

definition tester :: row where
  "tester =
     [(''id'', SInt 1), (''email'', SText ''tester@mytesting.com''),
      (''password_hash'', SText ''toy$na$drowssaPtxeTnialP'')]"

definition sample_db :: db where
  "sample_db =
     \<lparr>region_table = [[(''NOC'', SText ''ITA''), (''region'', SText ''Italy''), (''notes'', SNull)]],
      event_table = [rome_1960],
      user_table = [tester]\<rparr>"

definition after_dollar :: "string \<Rightarrow> string" where
  "after_dollar s = drop 1 (dropWhile (\<lambda>c. c \<noteq> CHR ''$'') s)"

definition toy_env :: env where
  "toy_env =
     \<lparr>SECRET_KEY = ''secret'', token_lifetime = 300, now = 1000, salt = ''na'',
      random_rowid = None,
      kdf_hash = (\<lambda>s p. ''toy$'' @ s @ ''$'' @ rev p),
      kdf_check = (\<lambda>h p. after_dollar (after_dollar h) = rev p),
      event_schema_load = (\<lambda>t j inst partial. Inl (ValidationError JNull)),
      region_schema_load = (\<lambda>t j inst partial. Inl (ValidationError JNull)),
      jwt_sign = (\<lambda>k p. k @ ''.'' @ dec (nat (snd p))),
      jwt_text = (\<lambda>t. dec (nat (exp t)) @ ''.'' @ signature t),
      jwt_parse =
        (\<lambda>s. if s = ''1300.secret.1300''
             then Some \<lparr>sub = JNum 1, exp = 1300, signature = ''secret.1300''\<rparr>
             else None)\<rparr>"

definition json_request :: "string option \<Rightarrow> json \<Rightarrow> request" where
  "json_request a j = \<lparr>authorization = a, get_json = Inr j\<rparr>"

definition credentials :: "string \<Rightarrow> string \<Rightarrow> json" where
  "credentials e p = JObj [(''email'', JStr e), (''password'', JStr p)]"

section \<open>Lemmas on the queries\<close>

lemma filter_absent: "v \<notin> f ` set t \<Longrightarrow> filter (\<lambda>r. f r = v) t = []"
  by (induction t) auto

lemma filter_present:
  "distinct (map f t) \<Longrightarrow> u \<in> set t \<Longrightarrow> filter (\<lambda>r. f r = f u) t = [u]"
proof (induction t)
  case Nil
  then show ?case by simp
next
  case (Cons a t)
  show ?case
  proof (cases "a = u")
    case True
    with Cons.prems have "f u \<notin> f ` set t" by auto
    then have "filter (\<lambda>r. f r = f u) t = []" by (rule filter_absent)
    with True show ?thesis by simp
  next
    case False
    with Cons.prems have "u \<in> set t" "f a \<noteq> f u" "distinct (map f t)" by auto
    with Cons.IH show ?thesis by simp
  qed
qed

text \<open>The decimal text of a 64-bit integer reads as that integer.\<close>

lemma digit_char:
  assumes "0 \<le> k" "k < 10"
  shows "is_digit (char_of (48 + k :: int))" and "of_char (char_of (48 + k :: int)) = 48 + k"
proof -
  have "(48 + k) mod 256 = 48 + k" using assms by simp
  then show "of_char (char_of (48 + k :: int)) = 48 + k" by simp
  then show "is_digit (char_of (48 + k :: int))" using assms by (simp add: is_digit_def)
qed

lemma dec_int_digits:
  "0 \<le> n \<Longrightarrow> dec_int n \<noteq> [] \<and> list_all is_digit (dec_int n) \<and> digits_value (dec_int n) = n"
proof (induction n rule: dec_int.induct)
  case (1 n)
  show ?case
  proof (cases "n < 10")
    case True
    with "1.prems" digit_char [of n] show ?thesis
      by (simp add: dec_int.simps [of n] digits_value_def)
  next
    case False
    with "1.prems" have q: "0 \<le> n div 10" by simp
    from "1.IH" [OF False q]
    have IH: "dec_int (n div 10) \<noteq> []" "list_all is_digit (dec_int (n div 10))"
      "digits_value (dec_int (n div 10)) = n div 10" by simp_all
    have m: "0 \<le> n mod 10" "n mod 10 < 10" by simp_all
    from False IH digit_char [OF m] show ?thesis
      by (simp add: dec_int.simps [of n] digits_value_def)
  qed
qed

lemma digit_not_space: "is_digit c \<Longrightarrow> \<not> is_space c"
  by (auto simp: is_digit_def is_space_def)

lemma dropWhile_hd: "xs \<noteq> [] \<Longrightarrow> \<not> P (hd xs) \<Longrightarrow> dropWhile P (xs @ ys) = xs @ ys"
  by (cases xs) auto

lemma digits_no_blanks:
  assumes "ds \<noteq> []" "list_all is_digit ds"
  shows "dropWhile is_space (rev ds @ ys) = rev ds @ ys" and "dropWhile is_space ds = ds"
proof -
  from assms have "is_digit (last ds)" "is_digit (hd ds)"
    by (simp_all add: list_all_iff)
  then have "\<not> is_space (hd (rev ds))" "\<not> is_space (hd ds)"
    using assms(1) by (simp_all add: digit_not_space hd_rev)
  with assms(1) dropWhile_hd [of "rev ds" is_space ys] dropWhile_hd [of ds is_space "[]"]
  show "dropWhile is_space (rev ds @ ys) = rev ds @ ys" "dropWhile is_space ds = ds"
    by simp_all
qed

lemma integer_literal_str_int:
  assumes "- (2 ^ 63) \<le> n" "n < 2 ^ 63"
  shows "integer_literal (str_int n) = Some n"
proof (cases "n < 0")
  case True
  then have pos: "0 \<le> - n" by simp
  from dec_int_digits [OF pos]
  have d: "dec_int (- n) \<noteq> []" "list_all is_digit (dec_int (- n))" "digits_value (dec_int (- n)) = - n"
    by simp_all
  have minus: "\<not> is_space (CHR ''-'')" by (simp add: is_space_def)
  from digits_no_blanks(1) [OF d(1,2), of "''-''"] minus
  have "rev (dropWhile is_space (rev (dropWhile is_space (CHR ''-'' # dec_int (- n))))) =
        CHR ''-'' # dec_int (- n)"
    by simp
  with True d assms show ?thesis
    by (simp add: integer_literal_def str_int_def unsigned_literal_def)
next
  case False
  then have pos: "0 \<le> n" by simp
  from dec_int_digits [OF pos]
  have d: "dec_int n \<noteq> []" "list_all is_digit (dec_int n)" "digits_value (dec_int n) = n"
    by simp_all
  from d(1) obtain c cs where cs: "dec_int n = c # cs" by (cases "dec_int n") auto
  with d(2) have "is_digit c" by simp
  then have sign: "c \<noteq> CHR ''-''" "c \<noteq> CHR ''+''" by (auto simp: is_digit_def)
  from digits_no_blanks(1) [OF d(1,2), of "[]"] digits_no_blanks(2) [OF d(1,2)]
  have "rev (dropWhile is_space (rev (dropWhile is_space (dec_int n)))) = dec_int n"
    by simp
  with False d assms cs sign show ?thesis
    by (simp add: integer_literal_def str_int_def unsigned_literal_def)
qed

lemma Event_column_names:
  "column_names Event =
     [''id'', ''type'', ''year'', ''country'', ''host'', ''NOC'', ''start'', ''end'',
      ''duration'', ''disabilities_included'', ''countries'', ''events'', ''sports'',
      ''participants_m'', ''participants_f'', ''participants'', ''highlights'']"
  by (simp add: column_names_def Event_def mapped_column_def pk_column_def)

lemma Event_no_event_id: "find (\<lambda>c. col_name c = ''event_id'') (columns Event) = None"
  by (simp add: Event_def mapped_column_def pk_column_def)

lemma Event_id_column: "find (\<lambda>c. col_name c = ''id'') (columns Event) = Some (pk_column ''id'' Integer)"
  by (simp add: Event_def mapped_column_def pk_column_def)

lemma User_columns:
  "columns User = [pk_column ''id'' Integer, unique_column ''email'' String,
                   unique_column ''password_hash'' String]"
  by (simp add: User_def)

lemma py_get_dict: "py_get (JObj kv) k = Inr (getattr kv k)"
  by (simp add: getattr_def)

lemma filter_by_email:
  "bind_param v = Inr p \<Longrightarrow>
   filter_by User ''email'' v t = Inr (filter (\<lambda>r. attr r ''email'' = text_affinity p) t)"
  by (simp add: filter_by_def User_def unique_column_def pk_column_def)

lemma lookup_absent:
  assumes "bind_param v = Inr p" and "text_affinity p \<notin> (\<lambda>r. attr r ''email'') ` set t"
  shows "filter_by User ''email'' v t = Inr []"
  using filter_absent [OF assms(2)] by (simp add: filter_by_email [OF assms(1)])

lemma lookup_present:
  assumes "bind_param v = Inr p"
      and "distinct (map (\<lambda>r. attr r ''email'') t)" "u \<in> set t" "attr u ''email'' = text_affinity p"
  shows "filter_by User ''email'' v t = Inr [u]"
  using filter_present [OF assms(2,3)] assms(4) by (simp add: filter_by_email [OF assms(1)])

lemma attr_set_col: "k' \<noteq> k \<Longrightarrow> attr (set_col r k v) k' = attr r k'"
proof -
  assume "k' \<noteq> k"
  then have "map_of (map (\<lambda>kv. if fst kv = k then (k, v) else kv) r) k' = map_of r k'"
    by (induction r) auto
  then show ?thesis by (simp add: attr_def set_col_def)
qed


lemma getattr_py_object: "getattr (py_object r) k = py_value (attr r k)"
proof -
  have "map_of (map (\<lambda>kv. (fst kv, py_value (snd kv))) r) k = map_option py_value (map_of r k)"
    by (induction r) auto
  then show ?thesis by (simp add: getattr_def attr_def py_object_def split: option.splits)
qed

text \<open>The columns of a user as the INSERT stores them.\<close>

lemma bind_columns_User:
  assumes "bind_columns (columns User) ob = Inr r"
  shows "\<exists>i e h. bind_param (getattr ob ''id'') = Inr i \<and> bind_param (getattr ob ''email'') = Inr e \<and>
           bind_param (getattr ob ''password_hash'') = Inr h \<and>
           r = [(''id'', integer_affinity i), (''email'', text_affinity e),
                (''password_hash'', text_affinity h)]"
  using assms
  by (auto simp: User_columns pk_column_def unique_column_def split: sum.splits)

lemma autoincrement_User:
  assumes "autoincrement rnd (columns User) t [(''id'', i), (''email'', e), (''password_hash'', h)] = Inr r"
  shows "\<exists>i'. r = [(''id'', i'), (''email'', e), (''password_hash'', h)]"
  using assms
  by (auto simp: User_columns pk_column_def unique_column_def set_col_def attr_def
      split: if_splits sum.splits)

lemma constraints_User:
  assumes "\<not> violates_not_null User [(''id'', i), (''email'', e), (''password_hash'', h)]"
      and "\<not> violates_unique User t [(''id'', i), (''email'', e), (''password_hash'', h)]"
  shows "h \<notin> (\<lambda>x. attr x ''password_hash'') ` set t \<and> e \<notin> (\<lambda>x. attr x ''email'') ` set t"
proof -
  from assms(1) have nn: "h \<noteq> SNull" "e \<noteq> SNull"
    by (simp_all add: violates_not_null_def User_columns unique_column_def pk_column_def attr_def)
  from assms(2) nn
  have "\<not> list_ex (\<lambda>x. attr x ''password_hash'' = h) t" "\<not> list_ex (\<lambda>x. attr x ''email'' = e) t"
    by (simp_all add: violates_unique_def User_columns unique_column_def pk_column_def attr_def)
  then show ?thesis by (auto simp: list_ex_iff)
qed

text \<open>A user row that the INSERT or the UPDATE accepts repeats no stored email and no
  stored hash.\<close>

lemma insert_row_User_ok:
  assumes "insert_row rnd User ob t = Inr (r, t')"
  shows "t' = t @ [r] \<and>
         attr r ''password_hash'' \<notin> (\<lambda>x. attr x ''password_hash'') ` set t \<and>
         attr r ''email'' \<notin> (\<lambda>x. attr x ''email'') ` set t"
proof -
  from assms obtain r0 where b: "bind_columns (columns User) ob = Inr r0"
    and a: "autoincrement rnd (columns User) t r0 = Inr r"
    and ok: "\<not> violates_not_null User r" "\<not> violates_unique User t r"
    and t': "t' = t @ [r]"
    by (auto simp: insert_row_def split: sum.splits if_splits)
  from bind_columns_User [OF b] obtain i e h
    where r0: "r0 = [(''id'', i), (''email'', e), (''password_hash'', h)]" by blast
  from autoincrement_User [OF a [unfolded r0]] obtain i'
    where r: "r = [(''id'', i'), (''email'', e), (''password_hash'', h)]" by blast
  from constraints_User [OF ok [unfolded r]] t' show ?thesis
    by (simp add: r attr_def)
qed

lemma update_row_User_ok:
  assumes "update_row User old ob t = Inr (r, t')"
  shows "t' = map (\<lambda>x. if x = old then r else x) t \<and>
         attr r ''password_hash'' \<notin> (\<lambda>x. attr x ''password_hash'') ` set (filter (\<lambda>x. x \<noteq> old) t)"
proof -
  from assms have b: "bind_columns (columns User) ob = Inr r"
    and ok: "\<not> violates_not_null User r" "\<not> violates_unique User (filter (\<lambda>x. x \<noteq> old) t) r"
    and t': "t' = map (\<lambda>x. if x = old then r else x) t"
    by (auto simp: update_row_def split: sum.splits if_splits)
  from bind_columns_User [OF b] obtain i e h
    where r: "r = [(''id'', i), (''email'', e), (''password_hash'', h)]" by blast
  from constraints_User [OF ok [unfolded r]] t' show ?thesis
    by (simp add: r attr_def)
qed

lemma distinct_replace:
  assumes "distinct (map f t)" and "f r \<notin> f ` set (filter (\<lambda>x. x \<noteq> old) t)"
  shows "distinct (map f (map (\<lambda>x. if x = old then r else x) t))"
  using assms
proof (induction t)
  case Nil
  then show ?case by simp
next
  case (Cons a t)
  from Cons.prems have d: "distinct (map f t)" and na: "f a \<notin> f ` set t" by auto
  show ?case
  proof (cases "a = old")
    case True
    with na have "old \<notin> set t" by auto
    then have same: "map (\<lambda>x. if x = old then r else x) t = t"
      by (induction t) auto
    from \<open>old \<notin> set t\<close> have "filter (\<lambda>x. x \<noteq> old) t = t"
      by (induction t) auto
    with Cons.prems(2) True have "f r \<notin> f ` set t" by simp
    with True same d show ?thesis by simp
  next
    case False
    with Cons.prems(2) have fr: "f r \<noteq> f a" and rest: "f r \<notin> f ` set (filter (\<lambda>x. x \<noteq> old) t)"
      by auto
    from Cons.IH [OF d rest] have IH: "distinct (map f (map (\<lambda>x. if x = old then r else x) t))" .
    have "f a \<notin> (\<lambda>x. f (if x = old then r else x)) ` set t"
    proof
      assume "f a \<in> (\<lambda>x. f (if x = old then r else x)) ` set t"
      then obtain x where x: "x \<in> set t" "f a = f (if x = old then r else x)" by auto
      show False
      proof (cases "x = old")
        case True
        with x(2) fr show False by simp
      next
        case False
        with x na show False by auto
      qed
    qed
    with False IH show ?thesis by (simp add: comp_def)
  qed
qed

text \<open>An INSERT of a user whose hash, as stored, is a stored one fails.\<close>

lemma insert_row_User_duplicate_hash:
  assumes "bind_param (getattr ob ''password_hash'') = Inr h"
      and "text_affinity h \<in> (\<lambda>x. attr x ''password_hash'') ` set t"
  shows "isl (insert_row rnd User ob t)"
proof (rule ccontr)
  assume "\<not> isl (insert_row rnd User ob t)"
  then obtain r t' where ins: "insert_row rnd User ob t = Inr (r, t')"
    by (cases "insert_row rnd User ob t") auto
  then obtain r0 where b: "bind_columns (columns User) ob = Inr r0"
    and a: "autoincrement rnd (columns User) t r0 = Inr r"
    by (auto simp: insert_row_def split: sum.splits if_splits)
  from bind_columns_User [OF b] assms(1) obtain i e
    where r0: "r0 = [(''id'', i), (''email'', e), (''password_hash'', text_affinity h)]" by auto
  from autoincrement_User [OF a [unfolded r0]] obtain i'
    where "r = [(''id'', i'), (''email'', e), (''password_hash'', text_affinity h)]" by blast
  then have "attr r ''password_hash'' = text_affinity h" by (simp add: attr_def)
  with insert_row_User_ok [OF ins] assms(2) show False by simp
qed

section \<open>Lemmas on the routes\<close>

text \<open>With event ids pairwise different, \<open>get_event\<close> answers a stored id with 200 and
  the dump of the event.\<close>

lemma get_event_found:
  assumes "distinct (map (\<lambda>r. attr r ''id'') (event_table d))"
      and "ev \<in> set (event_table d)" and "attr ev ''id'' = SInt i"
      and "- (2 ^ 63) \<le> i" "i < 2 ^ 63"
  shows "get_event i d = Inr \<lparr>status = 200, data = JSON (dump Event ev)\<rparr>"
  using filter_present [OF assms(1,2)] assms(3) integer_literal_str_int [OF assms(4,5)]
  by (simp add: get_event_def filter_by_def Event_id_column pk_column_def)

lemma get_event_not_found:
  assumes "SInt i \<notin> (\<lambda>r. attr r ''id'') ` set (event_table d)"
      and "- (2 ^ 63) \<le> i" "i < 2 ^ 63"
  shows "get_event i d = Inl NoResultFound"
  using filter_absent [OF assms(1)] integer_literal_str_int [OF assms(2,3)]
  by (simp add: get_event_def filter_by_def Event_id_column pk_column_def)

text \<open>Where \<open>get_region\<close> finds no row it raises the 404, which its handler answers.\<close>

lemma get_region_not_found:
  assumes "SText c \<notin> (\<lambda>r. attr r ''NOC'') ` set (region_table d)"
  shows "get_region c d = Inl (abort_404 ''Region not found'') \<and>
         map_sum id status (wsgi_app p (get_region c d)) = Inr 404"
proof -
  have "filter_by Region ''NOC'' (JStr c) (region_table d) = Inr []"
    using filter_absent [OF assms]
    by (simp add: filter_by_def Region_def mapped_column_def pk_column_def)
  then have "get_region c d = Inl (abort_404 ''Region not found'')"
    by (simp add: get_region_def)
  then show ?thesis
    by (simp add: wsgi_app_def full_dispatch_request_def abort_404_def resource_not_found_def)
qed

text \<open>Every exception that is neither an HTTP error nor a validation error makes the
  handler registered for \<open>Exception\<close> raise; without propagation the framework then
  answers with the JSON form of its own \<open>InternalServerError\<close>.\<close>

lemma handle_exception_raises:
  "(case e of HTTPException h \<Rightarrow> True | _ \<Rightarrow> handle_exception e = Inl AttributeError)"
  by (cases e) simp_all

lemma uncaught_exception_response:
  "(case e of HTTPException h \<Rightarrow> True | ValidationError m \<Rightarrow> True
    | _ \<Rightarrow> wsgi_app False (Inl e) = handle_exception_http InternalServerError \<and>
          wsgi_app True (Inl e) = Inl AttributeError)"
  by (cases e) (simp_all add: wsgi_app_def full_dispatch_request_def flask_handle_exception_def
      handle_exception_http_def)

text \<open>\<open>login\<close> answers 401 where the body is falsy, or is a dict whose email or password
  is missing or falsy; on any other body that is not a dict it raises.\<close>

lemma login_missing_fields:
  assumes "get_json req = Inr auth"
      and "\<not> truthy auth \<or>
           (\<exists>kv. auth = JObj kv \<and> (\<not> truthy (getattr kv ''email'') \<or> \<not> truthy (getattr kv ''password'')))"
  shows "login E req d = Inr (make_response (message ''Missing email or password'') 401)"
  using assms by (auto simp: login_def getattr_def split: sum.splits)

lemma login_not_a_dict:
  assumes "get_json req = Inr auth" and "truthy auth" and "\<forall>kv. auth \<noteq> JObj kv"
  shows "login E req d = Inl AttributeError"
  using assms by (cases auth) (simp_all add: login_def)

text \<open>Where both passwords are strs, an unknown email and a stored email with a password
  the library rejects get the same answer.\<close>

lemma login_generic_failure_str:
  assumes body1: "get_json req1 = Inr (JObj kv1)"
      and email1: "truthy (getattr kv1 ''email'')" "bind_param (getattr kv1 ''email'') = Inr p1"
      and pw1: "truthy (getattr kv1 ''password'')"
      and body2: "get_json req2 = Inr (JObj kv2)"
      and email2: "truthy (getattr kv2 ''email'')" "bind_param (getattr kv2 ''email'') = Inr p2"
      and pw2: "getattr kv2 ''password'' = JStr w" "w \<noteq> []"
      and absent: "text_affinity p1 \<notin> (\<lambda>r. attr r ''email'') ` set (user_table d)"
      and uniq: "email_unique d"
      and present: "u \<in> set (user_table d)" "attr u ''email'' = text_affinity p2"
      and wrong: "attr u ''password_hash'' = SText h" "\<not> kdf_check E h w"
  shows "login E req1 d =
           Inr \<lparr>status = 401, data = JSON (JObj [(''message'', JStr ''Incorrect email or password.'')])\<rparr> \<and>
         login E req2 d = login E req1 d"
proof -
  from email1 have ne1: "kv1 \<noteq> []" by (auto simp: getattr_def)
  from email2 have ne2: "kv2 \<noteq> []" by (auto simp: getattr_def)
  from uniq have uniq': "distinct (map (\<lambda>r. attr r ''email'') (user_table d))"
    by (simp add: email_unique_def)
  have h: "getattr (py_object u) ''password_hash'' = JStr h"
    using wrong(1) by (simp add: getattr_py_object)
  have l1: "login E req1 d =
      Inr \<lparr>status = 401, data = JSON (JObj [(''message'', JStr ''Incorrect email or password.'')])\<rparr>"
    using body1 email1 pw1 ne1 lookup_absent [OF email1(2) absent]
    by (simp add: login_def py_get_dict make_response_def message_def del: py_get.simps)
  have l2: "login E req2 d =
      Inr \<lparr>status = 401, data = JSON (JObj [(''message'', JStr ''Incorrect email or password.'')])\<rparr>"
    using body2 email2 pw2 ne2 lookup_present [OF email2(2) uniq' present] wrong(2) h
    by (simp add: login_def py_get_dict make_response_def message_def check_password_def
        check_password_hash_def del: py_get.simps)
  from l1 l2 show ?thesis by simp
qed

text \<open>With a valid token the guard hands the request to the wrapped function.\<close>

lemma token_required_passes:
  "authenticate E req = Inr user_id \<Longrightarrow> token_required E f req d = f req d"
  by (simp add: token_required_def)

text \<open>Only \<open>register\<close> writes the table of users.\<close>

lemma register_try_user_table:
  assumes "register_try E post_data d = Inr d'"
  shows "\<exists>u. user_table d' = user_table d @ [u] \<and>
             attr u ''password_hash'' \<notin> (\<lambda>x. attr x ''password_hash'') ` set (user_table d) \<and>
             attr u ''email'' \<notin> (\<lambda>x. attr x ''email'') ` set (user_table d)"
proof -
  from assms obtain ob u t' where ins: "insert_row (random_rowid E) User ob (user_table d) = Inr (u, t')"
    and d': "d' = d\<lparr>user_table := t'\<rparr>"
    by (auto simp: register_try_def split: sum.splits prod.splits)
  from insert_row_User_ok [OF ins] d' show ?thesis by auto
qed

lemma register_user_table:
  assumes "register E req d = (rv, d')"
  shows "d' = d \<or>
         (\<exists>u. user_table d' = user_table d @ [u] \<and>
             attr u ''password_hash'' \<notin> (\<lambda>x. attr x ''password_hash'') ` set (user_table d) \<and>
             attr u ''email'' \<notin> (\<lambda>x. attr x ''email'') ` set (user_table d))"
  using assms register_try_user_table [of E _ d d']
  by (auto simp: register_def split: sum.splits option.splits)

lemma register_keeps_email_unique:
  assumes "email_unique d" "register E req d = (rv, d')"
  shows "email_unique d'"
  using register_user_table [OF assms(2)] assms(1)
  by (auto simp: email_unique_def)

lemma add_event_user_table: "add_event E req d = (rv, d') \<Longrightarrow> user_table d' = user_table d"
  by (auto simp: add_event_def split: sum.splits prod.splits)

lemma add_region_user_table: "add_region E req d = (rv, d') \<Longrightarrow> user_table d' = user_table d"
  by (auto simp: add_region_def split: sum.splits prod.splits)

lemma delete_event_user_table: "delete_event i req d = (rv, d') \<Longrightarrow> user_table d' = user_table d"
  by (auto simp: delete_event_def split: sum.splits prod.splits)

lemma delete_region_user_table: "delete_region c req d = (rv, d') \<Longrightarrow> user_table d' = user_table d"
  by (auto simp: delete_region_def delete_region_try_def split: sum.splits prod.splits if_splits)

lemma event_update_user_table: "event_update E i req d = (rv, d') \<Longrightarrow> user_table d' = user_table d"
  by (auto simp: event_update_def split: sum.splits prod.splits)

lemma region_update_user_table: "region_update E c req d = (rv, d') \<Longrightarrow> user_table d' = user_table d"
  by (auto simp: region_update_def split: sum.splits prod.splits)

lemma view_body_user_table:
  assumes "view_body E r req d = (rv, d')"
  shows "user_table d' = user_table d \<or>
         (\<exists>u. user_table d' = user_table d @ [u] \<and>
             attr u ''password_hash'' \<notin> (\<lambda>x. attr x ''password_hash'') ` set (user_table d))"
proof (cases r)
  case register_route
  with assms register_user_table [of E req d rv d'] show ?thesis by auto
qed (use assms add_event_user_table add_region_user_table delete_event_user_table
      delete_region_user_table event_update_user_table region_update_user_table in auto)

lemma view_function_user_table:
  assumes "view_function E (view_body E) r req d = (rv, d')"
  shows "user_table d' = user_table d \<or>
         (\<exists>u. user_table d' = user_table d @ [u] \<and>
             attr u ''password_hash'' \<notin> (\<lambda>x. attr x ''password_hash'') ` set (user_table d))"
proof -
  have "view_function E (view_body E) r req d = view_body E r req d \<or> d' = d"
    using assms by (cases r) (auto simp: token_required_def split: sum.splits)
  with assms view_body_user_table [of E r req d rv d'] show ?thesis by auto
qed

text \<open>A stored email whose hash string has its two dollar signs, and a password that is
  truthy and not a str: the check raises.\<close>

lemma login_password_not_a_str:
  assumes body: "get_json req = Inr (JObj kv)"
      and email: "truthy (getattr kv ''email'')" "bind_param (getattr kv ''email'') = Inr p"
      and pw: "truthy (getattr kv ''password'')" "\<forall>w. getattr kv ''password'' \<noteq> JStr w"
      and uniq: "email_unique d"
      and present: "u \<in> set (user_table d)" "attr u ''email'' = text_affinity p"
      and hash: "attr u ''password_hash'' = SText h" "2 \<le> count_list h (CHR ''$'')"
  shows "login E req d = Inl AttributeError"
proof -
  from email have ne: "kv \<noteq> []" by (auto simp: getattr_def)
  from uniq have uniq': "distinct (map (\<lambda>r. attr r ''email'') (user_table d))"
    by (simp add: email_unique_def)
  have h: "getattr (py_object u) ''password_hash'' = JStr h"
    using hash(1) by (simp add: getattr_py_object)
  have c: "check_password E (py_object u) (getattr kv ''password'') = Inl AttributeError"
    using pw(2) hash(2) h
    by (cases "getattr kv ''password''") (simp_all add: check_password_def check_password_hash_def)
  show ?thesis
    using body email pw(1) ne lookup_present [OF email(2) uniq' present] c
    by (simp add: login_def py_get_dict del: py_get.simps)
qed

section \<open>The properties\<close>

text \<open>
  C1 (GET /events/{id}, unknown id). On the sample database, whose only event has id 33,
  \<open>get_event 999\<close> raises \<open>NoResultFound\<close>, which nothing in the function catches. The
  handler registered for \<open>Exception\<close> raises in its turn: with propagation the exception
  leaves the application, without it the answer has status 500. In neither case is the
  answer a 404. (For a stored id the answer is 200 with the event: \<open>get_event_found\<close>.)
\<close>

theorem get_event_unknown_id:
  "get_event 999 sample_db = Inl NoResultFound \<and>
   wsgi_app True (get_event 999 sample_db) = Inl AttributeError \<and>
   map_sum id status (wsgi_app False (get_event 999 sample_db)) = Inr 500"
  by code_simp

text \<open>
  C2 (the guard on the write routes). For every route whose method is not GET (POST,
  PATCH and DELETE on regions and events, POST /register and POST /login), a request
  that the guard refuses is answered with 401 and the refusal's message, and the
  database is left as it was: the wrapped function, whatever it is, has not run.
\<close>

theorem token_required_guards:
  assumes "route_method r \<noteq> GET" and "authenticate E req = Inl reason"
  shows "view_function E other r req d = (Inr (make_response (message reason) 401), d) \<and>
         status (make_response (message reason) 401) = 401"
  using assms by (cases r) (simp_all add: token_required_def make_response_def)

theorem token_required_guards_witness:
  "route_method register_route \<noteq> GET \<and>
   authenticate toy_env (json_request None (credentials ''a@b.com'' ''Xy12345!'')) =
     Inl ''Authentication token missing'' \<and>
   view_function toy_env (view_body toy_env) register_route
       (json_request None (credentials ''a@b.com'' ''Xy12345!'')) sample_db =
     (Inr (make_response (message ''Authentication token missing'') 401), sample_db)"
proof -
  have m: "route_method register_route \<noteq> GET" by simp
  have a: "authenticate toy_env (json_request None (credentials ''a@b.com'' ''Xy12345!'')) =
             Inl ''Authentication token missing''"
    by (simp add: authenticate_def json_request_def)
  from token_required_guards [OF m a, of "view_body toy_env" sample_db] m a show ?thesis by simp
qed

text \<open>
  C3 (PATCH /events/{id}). \<open>event_update\<close> filters \<open>Event\<close> on \<open>event_id\<close>, which is not a
  column of \<open>Event\<close>, whose primary key is \<open>id\<close>; for every request and database the
  lookup raises \<open>InvalidRequestError\<close>, selects no row, and the database is unchanged.
\<close>

theorem event_update_lookup:
  "''event_id'' \<notin> set (column_names Event) \<and> primary_key_names Event = [''id''] \<and>
   event_update E event_id req d = (Inl InvalidRequestError, d)"
proof -
  have n: "''event_id'' \<notin> set (column_names Event)"
    unfolding Event_column_names by simp
  have p: "primary_key_names Event = [''id'']"
    by (simp add: primary_key_names_def Event_def mapped_column_def pk_column_def)
  have "filter_by Event ''event_id'' (JStr event_id) (event_table d) = Inl InvalidRequestError"
    by (simp add: filter_by_def Event_no_event_id)
  then have "event_update E event_id req d = (Inl InvalidRequestError, d)"
    by (simp add: event_update_def)
  with n p show ?thesis by simp
qed

text \<open>
  C4 (non-HTTP exceptions). Given \<open>NoResultFound\<close>, the handler registered for
  \<open>Exception\<close> returns no response: it raises \<open>AttributeError\<close>, and with propagation
  switched on (as under \<open>TESTING\<close>) that exception leaves the application.
\<close>

theorem handle_exception_non_http:
  "handle_exception NoResultFound = Inl AttributeError \<and>
   wsgi_app True (Inl NoResultFound) = Inl AttributeError"
  by (simp add: wsgi_app_def full_dispatch_request_def flask_handle_exception_def)

text \<open>
  C5 (login, generic failure). Two login requests with a valid token and the password 5,
  a JSON number:
  for the email that is not stored \<open>login\<close> answers 401 "Incorrect email or password.";
  for the stored email it calls the password check, which raises \<open>AttributeError\<close>, so
  the answer has status 500, or the exception leaves the application. The two answers
  differ, and tell whether the email is stored. (Where the passwords are strs the two
  answers are the same: \<open>login_generic_failure_str\<close>.)
\<close>

theorem login_password_5:
  "login toy_env
     (json_request (Some ''1300.secret.1300'')
        (JObj [(''email'', JStr ''nobody@mytesting.com''), (''password'', JNum 5)]))
     sample_db =
     Inr \<lparr>status = 401, data = JSON (JObj [(''message'', JStr ''Incorrect email or password.'')])\<rparr> \<and>
   login toy_env
     (json_request (Some ''1300.secret.1300'')
        (JObj [(''email'', JStr ''tester@mytesting.com''), (''password'', JNum 5)]))
     sample_db = Inl AttributeError \<and>
   map_sum id status (fst (serve False toy_env (view_body toy_env) login_route
     (json_request (Some ''1300.secret.1300'')
        (JObj [(''email'', JStr ''nobody@mytesting.com''), (''password'', JNum 5)]))
     sample_db)) = Inr 401 \<and>
   map_sum id status (fst (serve False toy_env (view_body toy_env) login_route
     (json_request (Some ''1300.secret.1300'')
        (JObj [(''email'', JStr ''tester@mytesting.com''), (''password'', JNum 5)]))
     sample_db)) = Inr 500 \<and>
   fst (serve True toy_env (view_body toy_env) login_route
     (json_request (Some ''1300.secret.1300'')
        (JObj [(''email'', JStr ''tester@mytesting.com''), (''password'', JNum 5)]))
     sample_db) = Inl AttributeError"
  by code_simp

text \<open>
  C6 (register). For a request whose body is a dict whose email the driver can bind, on
  a database with pairwise different emails: if the email, as the column stores it, is
  stored, the answer is 409 and nothing changes; otherwise, if the password is a str
  and the INSERT of the user with its hash succeeds, the answer is 201 and the row is
  stored; and if the hashing or the INSERT raises, the answer is 500 and nothing
  changes.
\<close>

theorem register_responses:
  assumes body: "get_json req = Inr (JObj kv)"
      and email: "bind_param (getattr kv ''email'') = Inr p"
      and uniq: "email_unique d"
  shows "register E req d =
           (if text_affinity p \<in> (\<lambda>r. attr r ''email'') ` set (user_table d)
            then (Inr \<lparr>status = 409,
                       data = JSON (JObj [(''message'', JStr ''User already exists. Please Log in.'')])\<rparr>,
                  d)
            else case getattr kv ''password'' of
                   JStr w \<Rightarrow>
                     (case insert_row (random_rowid E) User
                             [(''password_hash'', JStr (kdf_hash E (salt E) w)),
                              (''email'', getattr kv ''email'')]
                             (user_table d) of
                        Inr (u, t') \<Rightarrow>
                          (Inr \<lparr>status = 201,
                                data = JSON (JObj [(''message'', JStr ''Successfully registered.'')])\<rparr>,
                           d\<lparr>user_table := t'\<rparr>)
                      | Inl err \<Rightarrow>
                          (Inr \<lparr>status = 500,
                                data = JSON (JObj [(''message'', JStr ''An error occurred. Please try again.'')])\<rparr>,
                           d))
                 | _ \<Rightarrow>
                     (Inr \<lparr>status = 500,
                           data = JSON (JObj [(''message'', JStr ''An error occurred. Please try again.'')])\<rparr>,
                      d))"
proof (cases "text_affinity p \<in> (\<lambda>r. attr r ''email'') ` set (user_table d)")
  case True
  then obtain u where u: "u \<in> set (user_table d)" "attr u ''email'' = text_affinity p" by auto
  from uniq have "distinct (map (\<lambda>r. attr r ''email'') (user_table d))"
    by (simp add: email_unique_def)
  from lookup_present [OF email this u] True body show ?thesis
    by (simp add: register_def py_get_dict make_response_def message_def del: py_get.simps)
next
  case False
  have block: "register_try E (JObj kv) d =
     (case getattr kv ''password'' of
        JStr w \<Rightarrow>
          (case insert_row (random_rowid E) User
                  [(''password_hash'', JStr (kdf_hash E (salt E) w)), (''email'', getattr kv ''email'')]
                  (user_table d) of
             Inr (u, t') \<Rightarrow> Inr (d\<lparr>user_table := t'\<rparr>)
           | Inl err \<Rightarrow> Inl err)
      | _ \<Rightarrow> Inl AttributeError)"
    by (cases "getattr kv ''password''")
       (simp_all add: register_try_def py_get_dict set_password_def generate_password_hash_def
          set_attr_def split: sum.splits del: py_get.simps)
  from lookup_absent [OF email False] False body show ?thesis
    by (cases "getattr kv ''password''")
       (simp_all add: register_def py_get_dict make_response_def message_def block
          split: sum.splits del: py_get.simps)
qed

theorem register_responses_witness:
  "register toy_env (json_request None (credentials ''a@b.com'' ''Xy12345!'')) sample_db =
     (Inr \<lparr>status = 201, data = JSON (JObj [(''message'', JStr ''Successfully registered.'')])\<rparr>,
      sample_db\<lparr>user_table :=
        [tester, [(''id'', SInt 2), (''email'', SText ''a@b.com''),
                  (''password_hash'', SText ''toy$na$!54321yX'')]]\<rparr>) \<and>
   register toy_env (json_request None (credentials ''tester@mytesting.com'' ''Xy12345!'')) sample_db =
     (Inr \<lparr>status = 409,
           data = JSON (JObj [(''message'', JStr ''User already exists. Please Log in.'')])\<rparr>,
      sample_db) \<and>
   register toy_env (json_request None (credentials ''a@b.com'' ''PlainTextPassword'')) sample_db =
     (Inr \<lparr>status = 500,
           data = JSON (JObj [(''message'', JStr ''An error occurred. Please try again.'')])\<rparr>,
      sample_db)"
proof -
  have u: "email_unique sample_db"
    by (simp add: email_unique_def sample_db_def)
  have stored: "(\<lambda>r. attr r ''email'') ` set (user_table sample_db) = {SText ''tester@mytesting.com''}"
    by (simp add: sample_db_def tester_def attr_def)
  have created:
    "insert_row (random_rowid toy_env) User
       [(''password_hash'', JStr (kdf_hash toy_env (salt toy_env) ''Xy12345!'')), (''email'', JStr ''a@b.com'')]
       (user_table sample_db) =
     Inr ([(''id'', SInt 2), (''email'', SText ''a@b.com''), (''password_hash'', SText ''toy$na$!54321yX'')],
          [tester, [(''id'', SInt 2), (''email'', SText ''a@b.com''),
                    (''password_hash'', SText ''toy$na$!54321yX'')]])"
    by code_simp
  have refused:
    "insert_row (random_rowid toy_env) User
       [(''password_hash'', JStr (kdf_hash toy_env (salt toy_env) ''PlainTextPassword'')),
        (''email'', JStr ''a@b.com'')]
       (user_table sample_db) = Inl IntegrityError"
    by code_simp
  have "register toy_env (json_request None (credentials ''a@b.com'' ''Xy12345!'')) sample_db =
     (Inr \<lparr>status = 201, data = JSON (JObj [(''message'', JStr ''Successfully registered.'')])\<rparr>,
      sample_db\<lparr>user_table :=
        [tester, [(''id'', SInt 2), (''email'', SText ''a@b.com''),
                  (''password_hash'', SText ''toy$na$!54321yX'')]]\<rparr>)"
    using register_responses [of "json_request None (credentials ''a@b.com'' ''Xy12345!'')"
        "[(''email'', JStr ''a@b.com''), (''password'', JStr ''Xy12345!'')]" "SText ''a@b.com''"
        sample_db toy_env]
      u created stored
    by (simp add: json_request_def credentials_def getattr_def)
  moreover
  have "register toy_env (json_request None (credentials ''tester@mytesting.com'' ''Xy12345!'')) sample_db =
     (Inr \<lparr>status = 409,
           data = JSON (JObj [(''message'', JStr ''User already exists. Please Log in.'')])\<rparr>,
      sample_db)"
    using register_responses [of "json_request None (credentials ''tester@mytesting.com'' ''Xy12345!'')"
        "[(''email'', JStr ''tester@mytesting.com''), (''password'', JStr ''Xy12345!'')]"
        "SText ''tester@mytesting.com''" sample_db toy_env]
      u stored
    by (simp add: json_request_def credentials_def getattr_def)
  moreover
  have "register toy_env (json_request None (credentials ''a@b.com'' ''PlainTextPassword'')) sample_db =
     (Inr \<lparr>status = 500,
           data = JSON (JObj [(''message'', JStr ''An error occurred. Please try again.'')])\<rparr>,
      sample_db)"
    using register_responses [of "json_request None (credentials ''a@b.com'' ''PlainTextPassword'')"
        "[(''email'', JStr ''a@b.com''), (''password'', JStr ''PlainTextPassword'')]" "SText ''a@b.com''"
        sample_db toy_env]
      u refused stored
    by (simp add: json_request_def credentials_def getattr_def)
  ultimately show ?thesis by simp
qed

text \<open>
  C7 (login, missing fields). A login request with a valid token whose JSON body is the
  list \<open>[1]\<close> carries neither an email nor a password. \<open>login\<close> does not answer 401: the
  body is truthy, so \<open>auth.get('email')\<close> is evaluated and raises \<open>AttributeError\<close>; with
  propagation the exception leaves the application, without it the answer has status
  500. (For a falsy body and for a dict the answer is 401: \<open>login_missing_fields\<close>.)
\<close>

theorem login_list_body:
  "authenticate toy_env (json_request (Some ''1300.secret.1300'') (JArr [JNum 1])) = Inr (JNum 1) \<and>
   login toy_env (json_request (Some ''1300.secret.1300'') (JArr [JNum 1])) sample_db =
     Inl AttributeError \<and>
   serve True toy_env (view_body toy_env) login_route
       (json_request (Some ''1300.secret.1300'') (JArr [JNum 1])) sample_db =
     (Inl AttributeError, sample_db) \<and>
   map_sum id status (fst (serve False toy_env (view_body toy_env) login_route
       (json_request (Some ''1300.secret.1300'') (JArr [JNum 1])) sample_db)) = Inr 500"
proof -
  have a: "authenticate toy_env (json_request (Some ''1300.secret.1300'') (JArr [JNum 1])) = Inr (JNum 1)"
    by code_simp
  have l: "login toy_env (json_request (Some ''1300.secret.1300'') (JArr [JNum 1])) sample_db =
             Inl AttributeError"
    by (simp add: login_def json_request_def)
  from a l show ?thesis
    by (simp add: serve_def token_required_def wsgi_app_def full_dispatch_request_def
        flask_handle_exception_def handle_exception_http_def InternalServerError_def)
qed



text \<open>
  C9 (token round trip). A token issued for the user identifier \<open>U\<close> at time \<open>now E\<close>
  expires at \<open>now E + token_lifetime E\<close>. Decoded at a time \<open>t\<close> before the expiry it
  yields \<open>U\<close>; decoded after the expiry it fails with \<open>ExpiredSignatureError\<close>, which is
  not the error of an invalid signature.
\<close>

theorem token_round_trip:
  "(t < now E + token_lifetime E \<longrightarrow>
      decode_auth_token (E\<lparr>now := t\<rparr>) (encode_auth_token E U) = Inr U) \<and>
   (now E + token_lifetime E < t \<longrightarrow>
      decode_auth_token (E\<lparr>now := t\<rparr>) (encode_auth_token E U) = Inl ExpiredSignatureError) \<and>
   ExpiredSignatureError \<noteq> InvalidTokenError"
  by (simp add: decode_auth_token_def encode_auth_token_def)

theorem token_round_trip_witness:
  "decode_auth_token (toy_env\<lparr>now := 1200\<rparr>) (encode_auth_token toy_env (JNum 1)) = Inr (JNum 1) \<and>
   decode_auth_token (toy_env\<lparr>now := 1301\<rparr>) (encode_auth_token toy_env (JNum 1)) =
     Inl ExpiredSignatureError"
proof -
  have before: "1200 < now toy_env + token_lifetime toy_env"
    and after: "now toy_env + token_lifetime toy_env < 1301"
    by (simp_all add: toy_env_def)
  from token_round_trip [of 1200 toy_env "JNum 1"] before
  have valid: "decode_auth_token (toy_env\<lparr>now := 1200\<rparr>) (encode_auth_token toy_env (JNum 1)) =
                 Inr (JNum 1)"
    by blast
  from token_round_trip [of 1301 toy_env "JNum 1"] after
  have expired: "decode_auth_token (toy_env\<lparr>now := 1301\<rparr>) (encode_auth_token toy_env (JNum 1)) =
                   Inl ExpiredSignatureError"
    by blast
  from valid expired show ?thesis by simp
qed

text \<open>
  C10 (unique password hashes). \<open>User.password_hash\<close> is declared unique. On a database
  in which no two users share a password hash, every route of the application, and
  every INSERT and UPDATE of a user, leaves a database with the same property; and the
  INSERT of a user whose hash, as stored, equals a stored one fails.
\<close>

theorem password_hash_stays_unique:
  assumes inv: "password_hash_unique d"
  shows "(view_function E (view_body E) r req d = (rv, d') \<longrightarrow> password_hash_unique d') \<and>
         (serve propagate E (view_body E) r req d = (rv, d') \<longrightarrow> password_hash_unique d') \<and>
         (insert_row rnd User ob (user_table d) = Inr (u, t') \<longrightarrow>
            password_hash_unique (d\<lparr>user_table := t'\<rparr>)) \<and>
         (update_row User old ob (user_table d) = Inr (u, t') \<longrightarrow>
            password_hash_unique (d\<lparr>user_table := t'\<rparr>)) \<and>
         (bind_param (getattr ob ''password_hash'') = Inr h \<and>
          text_affinity h \<in> (\<lambda>x. attr x ''password_hash'') ` set (user_table d) \<longrightarrow>
            isl (insert_row rnd User ob (user_table d)))"
proof (intro conjI impI)
  assume "view_function E (view_body E) r req d = (rv, d')"
  from view_function_user_table [OF this] inv show "password_hash_unique d'"
    by (auto simp: password_hash_unique_def)
next
  assume "serve propagate E (view_body E) r req d = (rv, d')"
  then obtain rv' where "view_function E (view_body E) r req d = (rv', d')"
    by (auto simp: serve_def split: prod.splits)
  from view_function_user_table [OF this] inv show "password_hash_unique d'"
    by (auto simp: password_hash_unique_def)
next
  assume "insert_row rnd User ob (user_table d) = Inr (u, t')"
  from insert_row_User_ok [OF this] inv show "password_hash_unique (d\<lparr>user_table := t'\<rparr>)"
    by (auto simp: password_hash_unique_def)
next
  assume "update_row User old ob (user_table d) = Inr (u, t')"
  from update_row_User_ok [OF this] inv
    distinct_replace [of "\<lambda>x. attr x ''password_hash''" "user_table d" u old]
  show "password_hash_unique (d\<lparr>user_table := t'\<rparr>)"
    by (simp add: password_hash_unique_def)
next
  assume "bind_param (getattr ob ''password_hash'') = Inr h \<and>
          text_affinity h \<in> (\<lambda>x. attr x ''password_hash'') ` set (user_table d)"
  then show "isl (insert_row rnd User ob (user_table d))"
    using insert_row_User_duplicate_hash by blast
qed

theorem password_hash_stays_unique_witness:
  "password_hash_unique sample_db \<and>
   password_hash_unique
     (snd (view_function toy_env (view_body toy_env) register_route
             (json_request (Some ''1300.secret.1300'') (credentials ''a@b.com'' ''Xy12345!'')) sample_db)) \<and>
   user_table
     (snd (view_function toy_env (view_body toy_env) register_route
             (json_request (Some ''1300.secret.1300'') (credentials ''a@b.com'' ''Xy12345!'')) sample_db)) =
     [tester, [(''id'', SInt 2), (''email'', SText ''a@b.com''),
               (''password_hash'', SText ''toy$na$!54321yX'')]] \<and>
   isl (insert_row None User
          [(''password_hash'', JStr ''toy$na$drowssaPtxeTnialP''), (''email'', JStr ''a@b.com'')]
          (user_table sample_db))"
proof -
  have inv: "password_hash_unique sample_db"
    by (simp add: password_hash_unique_def sample_db_def)
  have b: "bind_param (getattr [(''password_hash'', JStr ''toy$na$drowssaPtxeTnialP''),
                                (''email'', JStr ''a@b.com'')] ''password_hash'') =
             Inr (SText ''toy$na$drowssaPtxeTnialP'')"
    by (simp add: getattr_def)
  have dup: "text_affinity (SText ''toy$na$drowssaPtxeTnialP'')
       \<in> (\<lambda>r. attr r ''password_hash'') ` set (user_table sample_db)"
    by (simp add: attr_def sample_db_def tester_def)
  have stored: "user_table
     (snd (view_function toy_env (view_body toy_env) register_route
             (json_request (Some ''1300.secret.1300'') (credentials ''a@b.com'' ''Xy12345!'')) sample_db)) =
     [tester, [(''id'', SInt 2), (''email'', SText ''a@b.com''),
               (''password_hash'', SText ''toy$na$!54321yX'')]]"
    by code_simp
  from password_hash_stays_unique [OF inv, of toy_env register_route
       "json_request (Some ''1300.secret.1300'') (credentials ''a@b.com'' ''Xy12345!'')"
       "fst (view_function toy_env (view_body toy_env) register_route
             (json_request (Some ''1300.secret.1300'') (credentials ''a@b.com'' ''Xy12345!'')) sample_db)"
       "snd (view_function toy_env (view_body toy_env) register_route
             (json_request (Some ''1300.secret.1300'') (credentials ''a@b.com'' ''Xy12345!'')) sample_db)"
       True None
       "[(''password_hash'', JStr ''toy$na$drowssaPtxeTnialP''), (''email'', JStr ''a@b.com'')]"
       "[]" "[]" "[]" "SText ''toy$na$drowssaPtxeTnialP''"]
    inv b dup stored
  show ?thesis by simp
qed

end
